theory Spec2Isabelle
  imports Main "HOL-Library.Sublist"
begin

section \<open>Text\<close>

text \<open>
  A Python \<^verbatim>\<open>str\<close> is a sequence of Unicode code points, and \<^verbatim>\<open>len\<close> and slicing count
  code points. An Isabelle \<^typ>\<open>char\<close> is one byte, so the texts of the program are lists of
  code points (\<^typ>\<open>nat\<close>); \<open>lit\<close> embeds an ASCII literal of the source, one code point per
  character. The two non-ASCII characters of the source (U+2011, in the fitness prompts) are
  written as the code point \<open>8209\<close>.
\<close>

type_synonym pystr = "nat list"

definition lit :: "string \<Rightarrow> pystr" where
  "lit s = map of_char s"

section \<open>Flat-file stores\<close>

text \<open>
  Both stores keep one JSON file under the directory \<^verbatim>\<open>storage\<close>. The state of that
  directory as the code can observe it: the directory is missing, the directory exists without
  the file, or the file holds a value (what the last \<^verbatim>\<open>json.dump\<close> wrote; the file is
  written by the store only, so its content has the shape the store writes).
\<close>

datatype 'a storage = NoDir | NoFile | File 'a

datatype io_error = FileNotFoundError

subsection \<open>services/history\_store.py\<close>

type_synonym 'e history_data = "pystr \<rightharpoonup> 'e list"

text \<open>\<^verbatim>\<open>load\<close> (lines 11-16): an absent file reads as the empty dict.\<close>

fun load :: "'e history_data storage \<Rightarrow> 'e history_data" where
  "load NoDir = Map.empty"
| "load NoFile = Map.empty"
| "load (File data) = data"

text \<open>
  \<^verbatim>\<open>save\<close> (lines 19-23): \<^verbatim>\<open>os.makedirs(STORAGE_DIR, exist_ok=True)\<close> creates the
  directory when it is missing, then the file is overwritten with the dict.
\<close>

definition save :: "'e history_data \<Rightarrow> 'e history_data storage \<Rightarrow> 'e history_data storage" where
  "save data st = File data"

text \<open>
  \<^verbatim>\<open>dict.setdefault(k, v)\<close>: the value stored under \<open>k\<close> when there is one; otherwise
  \<open>v\<close> is stored under \<open>k\<close> and returned.
\<close>

definition setdefault :: "('k \<rightharpoonup> 'v) \<Rightarrow> 'k \<Rightarrow> 'v \<Rightarrow> 'v \<times> ('k \<rightharpoonup> 'v)" where
  "setdefault d k v = (case d k of None \<Rightarrow> (v, d(k \<mapsto> v)) | Some x \<Rightarrow> (x, d))"

text \<open>
  The first textual definitions of \<^verbatim>\<open>save_history\<close> and \<^verbatim>\<open>get_history\<close>
  (lines 32-38 and 46-47). \<^verbatim>\<open>.append(entry)\<close> mutates the list object that the dict
  holds under \<open>user_id\<close>, so the dict that is saved has the longer list there.
\<close>

definition save_history_first ::
  "pystr \<Rightarrow> 'e \<Rightarrow> 'e history_data storage \<Rightarrow> 'e history_data storage" where
  "save_history_first user_id entry st =
     (let data = load st;
          (lst, data1) = setdefault data user_id [];
          data2 = data1(user_id \<mapsto> lst @ [entry])
      in save data2 st)"

definition get_history_first :: "pystr \<Rightarrow> 'e history_data storage \<Rightarrow> 'e list" where
  "get_history_first user_id st = (case load st user_id of None \<Rightarrow> [] | Some l \<Rightarrow> l)"

text \<open>
  The second textual definitions (lines 54-60 and 68-69), which rebind the two names and are
  the ones every caller gets.
\<close>

definition save_history ::
  "pystr \<Rightarrow> 'e \<Rightarrow> 'e history_data storage \<Rightarrow> 'e history_data storage" where
  "save_history user_id entry st =
     (let data = load st;
          (lst, data1) = setdefault data user_id [];
          data2 = data1(user_id \<mapsto> lst @ [entry])
      in save data2 st)"

definition get_history :: "pystr \<Rightarrow> 'e history_data storage \<Rightarrow> 'e list" where
  "get_history user_id st = (case load st user_id of None \<Rightarrow> [] | Some l \<Rightarrow> l)"

subsection \<open>services/user\_auth\_store.py\<close>

text \<open>
  A stored user is a JSON object; the keys the store writes and reads hold strings. The
  object is an association list, read with \<^verbatim>\<open>.get\<close>.
\<close>

type_synonym user = "(pystr \<times> pystr) list"

definition get :: "user \<Rightarrow> pystr \<Rightarrow> pystr option" where
  "get u k = map_of u k"

fun load_users :: "user list storage \<Rightarrow> user list" where
  "load_users NoDir = []"
| "load_users NoFile = []"
| "load_users (File users) = users"

text \<open>
  \<^verbatim>\<open>_save_users\<close> (lines 16-18) opens the file for writing without creating the
  directory: \<^verbatim>\<open>open\<close> raises when the directory is missing.
\<close>

fun save_users :: "user list \<Rightarrow> user list storage \<Rightarrow> io_error + user list storage" where
  "save_users users NoDir = Inl FileNotFoundError"
| "save_users users st = Inr (File users)"

definition new_user :: "pystr \<Rightarrow> pystr \<Rightarrow> pystr \<Rightarrow> user" where
  "new_user username password full_name =
     [(lit ''username'', username), (lit ''password'', password), (lit ''full_name'', full_name)]"

definition username_taken :: "pystr \<Rightarrow> user list \<Rightarrow> bool" where
  "username_taken username users = list_ex (\<lambda>u. get u (lit ''username'') = Some username) users"

text \<open>
  \<^verbatim>\<open>create_user\<close> (lines 30-36). The result is the returned bool, or the exception that
  leaves the function, together with the state of the storage afterwards.
\<close>

definition create_user ::
  "pystr \<Rightarrow> pystr \<Rightarrow> pystr \<Rightarrow> user list storage \<Rightarrow> (io_error + bool) \<times> user list storage" where
  "create_user username password full_name st =
     (let users = load_users st in
      if username_taken username users then (Inr False, st)
      else (case save_users (users @ [new_user username password full_name]) st of
              Inl e \<Rightarrow> (Inl e, st)
            | Inr st' \<Rightarrow> (Inr True, st')))"

definition usernames :: "user list \<Rightarrow> pystr option list" where
  "usernames users = map (\<lambda>u. get u (lit ''username'')) users"

section \<open>Shared memory, key pool and remote client\<close>

datatype message = SystemMessage pystr | HumanMessage pystr | AIMessage pystr

subsection \<open>services/memory.py\<close>

text \<open>
  Modelled from the spec: the module \<^verbatim>\<open>services/memory.py\<close> (\<^verbatim>\<open>get_shared_memory\<close> and
  the buffer it returns). Shared Memory is an ordered sequence of ConversationTurns, each a pair
  (input, output); \<^verbatim>\<open>append(input_label, output_text)\<close> adds one turn at the end, and
  \<^verbatim>\<open>history()\<close> returns the turns in order, as prior conversational turns for a message
  list: the input of a turn as a human message, its output as a model message. No operation
  deletes or changes a turn. The agents reach the two operations as
  \<^verbatim>\<open>load_memory_variables({})["chat_history"]\<close> and \<^verbatim>\<open>save_context\<close>.
\<close>

type_synonym turn = "pystr \<times> pystr"

type_synonym shared_memory = "turn list"

definition load_memory_variables :: "shared_memory \<Rightarrow> message list" where
  "load_memory_variables mem = concat (map (\<lambda>(inp, out). [HumanMessage inp, AIMessage out]) mem)"

definition save_context :: "pystr \<Rightarrow> pystr \<Rightarrow> shared_memory \<Rightarrow> shared_memory" where
  "save_context inp out mem = mem @ [(inp, out)]"

subsection \<open>services/api\_key\_pool.py\<close>

text \<open>
  Modelled from the spec: the module \<^verbatim>\<open>services/api_key_pool.py\<close> (\<^verbatim>\<open>get_next_key\<close>,
  \<^verbatim>\<open>mark_key_quota_exceeded\<close>). The Key Pool owns the ordered collection of credentials,
  a cursor for the rotation, and the availability state of each credential. \<^verbatim>\<open>next()\<close>
  returns one credential selected by round-robin among those not marked exhausted; when none
  is available it returns the next credential in rotation order regardless (degraded mode)
  rather than raising. \<^verbatim>\<open>mark_exhausted(credential)\<close> flips that credential to exhausted, is
  idempotent, and does not move the cursor; nothing makes a credential available again.

  The spec gives \<^verbatim>\<open>next()\<close> no result on a pool that holds no credential at all; the model
  makes that case an explicit failure, so that no theorem depends on it silently.
\<close>

type_synonym credential = pystr

record key_pool =
  keys :: "credential list"
  cursor :: nat
  exhausted :: "credential set"

datatype failure = RemoteFailure pystr | NoCredential

text \<open>The positions of the pool in rotation order, starting at the cursor.\<close>

definition rotation :: "key_pool \<Rightarrow> nat list" where
  "rotation p = map (\<lambda>i. (cursor p + i) mod length (keys p)) [0..<length (keys p)]"

definition get_next_key :: "key_pool \<Rightarrow> failure + (credential \<times> key_pool)" where
  "get_next_key p =
     (if keys p = [] then Inl NoCredential
      else case find (\<lambda>i. keys p ! i \<notin> exhausted p) (rotation p) of
             Some i \<Rightarrow> Inr (keys p ! i, p\<lparr>cursor := (i + 1) mod length (keys p)\<rparr>)
           | None \<Rightarrow> Inr (keys p ! (cursor p mod length (keys p)),
                          p\<lparr>cursor := (cursor p + 1) mod length (keys p)\<rparr>))"

definition mark_key_quota_exceeded :: "credential \<Rightarrow> key_pool \<Rightarrow> key_pool" where
  "mark_key_quota_exceeded key p = p\<lparr>exhausted := insert key (exhausted p)\<rparr>"

text \<open>
  A run of pool operations, for the properties that speak of every later call: the pool after
  any sequence of \<^verbatim>\<open>next()\<close> and \<^verbatim>\<open>mark_exhausted\<close> calls.
\<close>

datatype pool_op = Next | Mark credential

fun run_pool :: "pool_op list \<Rightarrow> key_pool \<Rightarrow> key_pool" where
  "run_pool [] p = p"
| "run_pool (Mark c # ops) p = run_pool ops (mark_key_quota_exceeded c p)"
| "run_pool (Next # ops) p =
     (case get_next_key p of
        Inl e \<Rightarrow> run_pool ops p
      | Inr (k, p') \<Rightarrow> run_pool ops p')"

definition available :: "key_pool \<Rightarrow> credential set" where
  "available p = set (keys p) - exhausted p"

subsection \<open>Remote model client and knowledge retriever\<close>

text \<open>
  The completion call \<^verbatim>\<open>llm.ainvoke(messages)\<close> of a client built on a credential is an
  opaque remote operation: given the state of the remote side, the credential and the message
  list, it fails or returns text, and leaves the remote side in a new state. Every failure is an
  \<^verbatim>\<open>Exception\<close>, which is what the agents catch. The knowledge retriever
  \<^verbatim>\<open>retrieve_context\<close> (services/rag.py, not part of these sources) is a synchronous function
  without side effects from the query text to the snippets; the agents take it as a parameter.
\<close>

type_synonym 'r client = "'r \<Rightarrow> credential \<Rightarrow> message list \<Rightarrow> (failure + pystr) \<times> 'r"

text \<open>
  The process-wide state that an agent invocation reads and writes: the key pool, the shared
  memory and the remote side. The agents are coroutines whose only suspension point is the
  remote call; the model runs one invocation at a time.
\<close>

record 'r world =
  pool :: key_pool
  memory :: shared_memory
  remote :: 'r

section \<open>services/agents.py\<close>

text \<open>
  \<^verbatim>\<open>_make_llm_with_key\<close> (lines 10-25) takes the next credential of the pool and builds a
  client on it; the client of the model is the credential it is bound to.
\<close>

definition make_llm_with_key :: "key_pool \<Rightarrow> failure + (credential \<times> key_pool)" where
  "make_llm_with_key p = get_next_key p"

text \<open>
  The block that every agent repeats verbatim (lines 70-76, 120-126, 172-178, 218-224): one
  call; on any exception the credential is marked, a new client is made and the call is
  repeated, outside any handler, so that its exception leaves the agent. The result comes with
  the world as the block leaves it.
\<close>

definition ainvoke_with_retry ::
  "'r client \<Rightarrow> message list \<Rightarrow> 'r world \<Rightarrow> (failure + pystr) \<times> 'r world" where
  "ainvoke_with_retry complete messages w =
     (case make_llm_with_key (pool w) of
        Inl e \<Rightarrow> (Inl e, w)
      | Inr (key, p1) \<Rightarrow>
          (case complete (remote w) key messages of
             (Inr content, r1) \<Rightarrow> (Inr content, w\<lparr>pool := p1, remote := r1\<rparr>)
           | (Inl e1, r1) \<Rightarrow>
               (let p2 = mark_key_quota_exceeded key p1 in
                case make_llm_with_key p2 of
                  Inl e \<Rightarrow> (Inl e, w\<lparr>pool := p2, remote := r1\<rparr>)
                | Inr (key2, p3) \<Rightarrow>
                    (case complete r1 key2 messages of
                       (result, r2) \<Rightarrow> (result, w\<lparr>pool := p3, remote := r2\<rparr>)))))"

text \<open>
  The end of every agent (lines 78-82, 128-132, 180-184, 226-230): reached only when the block
  above returned a result, it appends the turn and returns the content.
\<close>

definition save_and_return ::
  "pystr \<Rightarrow> (failure + pystr) \<times> 'r world \<Rightarrow> (failure + pystr) \<times> 'r world" where
  "save_and_return inp res =
     (case res of
        (Inl e, w) \<Rightarrow> (Inl e, w)
      | (Inr content, w) \<Rightarrow> (Inr content, w\<lparr>memory := save_context inp content (memory w)\<rparr>))"

subsection \<open>Symptom agent (lines 39-82)\<close>

definition symptom_system :: pystr where
  "symptom_system =
     lit ''You are a safe medical triage assistant. '' @
     lit ''You only assess severity and suggest if the user should see a doctor. '' @
     lit ''Do not provide diagnoses or prescriptions.\<newline>\<newline>'' @
     lit ''You may consider structured information from a lab/medical report '' @
     lit ''if it is provided, but still MUST NOT diagnose or prescribe.''"

definition symptom_prompt :: "pystr \<Rightarrow> pystr \<Rightarrow> pystr" where
  "symptom_prompt symptoms report =
     lit ''Analyze these symptoms and their possible severity.\<newline>\<newline>'' @
     lit ''Symptoms:\<newline>'' @ symptoms @ lit ''\<newline>\<newline>'' @
     lit ''Medical report text (may be empty):\<newline>'' @ report"

definition symptom_messages :: "message list \<Rightarrow> pystr \<Rightarrow> pystr \<Rightarrow> message list" where
  "symptom_messages history symptoms report =
     [SystemMessage symptom_system] @ history @ [HumanMessage (symptom_prompt symptoms report)]"

definition symptom_input :: "pystr \<Rightarrow> pystr \<Rightarrow> pystr" where
  "symptom_input symptoms report =
     lit ''[symptom_agent] symptoms='' @ symptoms @ lit '' report_snippet='' @ take 120 report"

definition symptom_agent ::
  "'r client \<Rightarrow> pystr \<Rightarrow> pystr \<Rightarrow> 'r world \<Rightarrow> (failure + pystr) \<times> 'r world" where
  "symptom_agent complete symptoms report w =
     (let history = load_memory_variables (memory w);
          messages = symptom_messages history symptoms report
      in save_and_return (symptom_input symptoms report)
           (ainvoke_with_retry complete messages w))"

subsection \<open>Lifestyle agent (lines 88-132)\<close>

definition lifestyle_system :: pystr where
  "lifestyle_system =
     lit ''You are a lifestyle coach collaborating with other agents. '' @
     lit ''Suggest simple lifestyle habits, sleep hygiene, stress management, '' @
     lit ''and daily routine tips. Keep suggestions safe and generic.\<newline>\<newline>'' @
     lit ''If lab values or diagnoses are mentioned in the report, you may '' @
     lit ''reference them in very general language (for example 'elevated '' @
     lit ''blood sugar'), but do NOT add new diagnoses or change treatment.''"

definition lifestyle_prompt :: "pystr \<Rightarrow> pystr \<Rightarrow> pystr" where
  "lifestyle_prompt symptoms report =
     lit ''Given the conversation so far, the user's symptoms, and any available '' @
     lit ''medical report text, suggest lifestyle changes and constraints.\<newline>\<newline>'' @
     lit ''Symptoms:\<newline>'' @ symptoms @ lit ''\<newline>\<newline>'' @
     lit ''Medical report text (may be empty):\<newline>'' @ report"

definition lifestyle_messages :: "message list \<Rightarrow> pystr \<Rightarrow> pystr \<Rightarrow> message list" where
  "lifestyle_messages history symptoms report =
     [SystemMessage lifestyle_system] @ history @ [HumanMessage (lifestyle_prompt symptoms report)]"

definition lifestyle_input :: "pystr \<Rightarrow> pystr \<Rightarrow> pystr" where
  "lifestyle_input symptoms report =
     lit ''[lifestyle_agent] '' @ take 160 (lifestyle_prompt symptoms report)"

definition lifestyle_agent ::
  "'r client \<Rightarrow> pystr \<Rightarrow> pystr \<Rightarrow> 'r world \<Rightarrow> (failure + pystr) \<times> 'r world" where
  "lifestyle_agent complete symptoms report w =
     (let history = load_memory_variables (memory w);
          messages = lifestyle_messages history symptoms report
      in save_and_return (lifestyle_input symptoms report)
           (ainvoke_with_retry complete messages w))"

subsection \<open>Diet agent (lines 138-184)\<close>

definition diet_system :: pystr where
  "diet_system =
     lit ''You are a dietician collaborating with other agents to give general diet guidance. '' @
     lit ''Never claim to cure diseases or override a doctor's advice. '' @
     lit ''Do not name prescription medicines or doses.''"

definition diet_prompt :: "pystr \<Rightarrow> pystr \<Rightarrow> pystr \<Rightarrow> pystr \<Rightarrow> pystr" where
  "diet_prompt symptoms report lifestyle_notes kb =
     lit ''User symptoms:\<newline>'' @ symptoms @ lit ''\<newline>\<newline>'' @
     lit ''Relevant medical report text (may be empty):\<newline>'' @ report @ lit ''\<newline>\<newline>'' @
     lit ''Lifestyle information from lifestyle_agent:\<newline>'' @ lifestyle_notes @ lit ''\<newline>\<newline>'' @
     lit ''Evidence / knowledge base snippets:\<newline>'' @ kb @ lit ''\<newline>\<newline>'' @
     lit ''Suggest a safe, balanced diet plan. Mention foods to prefer and foods to avoid. '' @
     lit ''Highlight that this is not a replacement for a dietician or doctor.''"

definition diet_messages ::
  "(pystr \<Rightarrow> pystr) \<Rightarrow> message list \<Rightarrow> pystr \<Rightarrow> pystr \<Rightarrow> pystr \<Rightarrow> message list" where
  "diet_messages retrieve_context history symptoms report lifestyle_notes =
     (let kb = retrieve_context symptoms;
          prompt = diet_prompt symptoms report lifestyle_notes kb
      in [SystemMessage diet_system] @ history @ [HumanMessage prompt])"

definition diet_input :: "(pystr \<Rightarrow> pystr) \<Rightarrow> pystr \<Rightarrow> pystr \<Rightarrow> pystr \<Rightarrow> pystr" where
  "diet_input retrieve_context symptoms report lifestyle_notes =
     (let kb = retrieve_context symptoms;
          prompt = diet_prompt symptoms report lifestyle_notes kb
      in lit ''[diet_agent] '' @ take 160 prompt)"

definition diet_agent ::
  "'r client \<Rightarrow> (pystr \<Rightarrow> pystr) \<Rightarrow> pystr \<Rightarrow> pystr \<Rightarrow> pystr \<Rightarrow> 'r world
     \<Rightarrow> (failure + pystr) \<times> 'r world" where
  "diet_agent complete retrieve_context symptoms report lifestyle_notes w =
     (let history = load_memory_variables (memory w);
          messages = diet_messages retrieve_context history symptoms report lifestyle_notes
      in save_and_return (diet_input retrieve_context symptoms report lifestyle_notes)
           (ainvoke_with_retry complete messages w))"

subsection \<open>Fitness agent (lines 190-230)\<close>

definition fitness_system :: pystr where
  "fitness_system =
     lit ''You are a cautious fitness coach. '' @
     lit ''You design simple, low'' @ [8209] @ lit ''intensity plans that are generally safe. '' @
     lit ''Always recommend consulting a doctor before heavy exercise.''"

definition fitness_prompt :: "pystr \<Rightarrow> pystr \<Rightarrow> pystr" where
  "fitness_prompt symptoms diet_notes =
     lit ''User symptoms:\<newline>'' @ symptoms @ lit ''\<newline>\<newline>'' @
     lit ''Diet constraints from diet_agent:\<newline>'' @ diet_notes @ lit ''\<newline>\<newline>'' @
     lit ''Recommend only low'' @ [8209] @ lit ''risk, gentle physical activities, and clearly tell the '' @
     lit ''user to stop if they feel pain or discomfort. Always remind them to talk '' @
     lit ''to their doctor before starting or intensifying exercise.''"

definition fitness_messages :: "message list \<Rightarrow> pystr \<Rightarrow> pystr \<Rightarrow> message list" where
  "fitness_messages history symptoms diet_notes =
     [SystemMessage fitness_system] @ history @ [HumanMessage (fitness_prompt symptoms diet_notes)]"

definition fitness_input :: "pystr \<Rightarrow> pystr \<Rightarrow> pystr" where
  "fitness_input symptoms diet_notes =
     lit ''[fitness_agent] '' @ take 160 (fitness_prompt symptoms diet_notes)"

definition fitness_agent ::
  "'r client \<Rightarrow> pystr \<Rightarrow> pystr \<Rightarrow> 'r world \<Rightarrow> (failure + pystr) \<times> 'r world" where
  "fitness_agent complete symptoms diet_notes w =
     (let history = load_memory_variables (memory w);
          messages = fitness_messages history symptoms diet_notes
      in save_and_return (fitness_input symptoms diet_notes)
           (ainvoke_with_retry complete messages w))"

subsection \<open>The four variants together\<close>

text \<open>
  One invocation of an agent with its arguments, so that a statement can speak of every
  variant at once.
\<close>

datatype agent_call =
    Symptom pystr pystr
  | Lifestyle pystr pystr
  | Diet pystr pystr pystr
  | Fitness pystr pystr

fun invoke ::
  "'r client \<Rightarrow> (pystr \<Rightarrow> pystr) \<Rightarrow> agent_call \<Rightarrow> 'r world \<Rightarrow> (failure + pystr) \<times> 'r world" where
  "invoke complete retrieve_context (Symptom symptoms report) w =
     symptom_agent complete symptoms report w"
| "invoke complete retrieve_context (Lifestyle symptoms report) w =
     lifestyle_agent complete symptoms report w"
| "invoke complete retrieve_context (Diet symptoms report lifestyle_notes) w =
     diet_agent complete retrieve_context symptoms report lifestyle_notes w"
| "invoke complete retrieve_context (Fitness symptoms diet_notes) w =
     fitness_agent complete symptoms diet_notes w"

text \<open>The message list an invocation composes, and the input side of the turn it records.\<close>

fun composed :: "(pystr \<Rightarrow> pystr) \<Rightarrow> agent_call \<Rightarrow> message list \<Rightarrow> message list" where
  "composed retrieve_context (Symptom symptoms report) history =
     symptom_messages history symptoms report"
| "composed retrieve_context (Lifestyle symptoms report) history =
     lifestyle_messages history symptoms report"
| "composed retrieve_context (Diet symptoms report lifestyle_notes) history =
     diet_messages retrieve_context history symptoms report lifestyle_notes"
| "composed retrieve_context (Fitness symptoms diet_notes) history =
     fitness_messages history symptoms diet_notes"

fun recorded_input :: "(pystr \<Rightarrow> pystr) \<Rightarrow> agent_call \<Rightarrow> pystr" where
  "recorded_input retrieve_context (Symptom symptoms report) = symptom_input symptoms report"
| "recorded_input retrieve_context (Lifestyle symptoms report) = lifestyle_input symptoms report"
| "recorded_input retrieve_context (Diet symptoms report lifestyle_notes) =
     diet_input retrieve_context symptoms report lifestyle_notes"
| "recorded_input retrieve_context (Fitness symptoms diet_notes) = fitness_input symptoms diet_notes"



subsection \<open>Test doubles of the remote client\<close>

text \<open>
  A scripted client answers its calls with the outcomes of a list, in order, and fails once
  the list is used up. A spying client wraps any client and logs the message list of every
  call it receives.
\<close>

definition scripted :: "(failure + pystr) list client" where
  "scripted script key messages =
     (case script of
        [] \<Rightarrow> (Inl (RemoteFailure (lit ''script exhausted'')), [])
      | outcome # rest \<Rightarrow> (outcome, rest))"


subsection \<open>Concrete pools and worlds\<close>

definition pool_ab :: key_pool where
  "pool_ab = \<lparr>keys = [lit ''key-A'', lit ''key-B''], cursor = 0, exhausted = {}\<rparr>"

definition pool_spent :: key_pool where
  "pool_spent = \<lparr>keys = [lit ''key-A'', lit ''key-B''], cursor = 1,
                 exhausted = {lit ''key-A'', lit ''key-B''}\<rparr>"

definition world_of :: "(failure + pystr) list \<Rightarrow> (failure + pystr) list world" where
  "world_of script = \<lparr>pool = pool_ab, memory = [], remote = script\<rparr>"

definition no_snippets :: "pystr \<Rightarrow> pystr" where
  "no_snippets query = []"

definition quota :: failure where
  "quota = RemoteFailure (lit ''quota exceeded'')"


section \<open>Embedded literals\<close>

lemma lit_eq_iff [simp]: "lit a = lit b \<longleftrightarrow> a = b"
  by (simp add: lit_def inj_map_eq_map inj_on_def)

lemma length_lit [simp]: "length (lit s) = length s"
  by (simp add: lit_def)

section \<open>History store: append and fetch\<close>

lemma load_save_history:
  "load (save_history user_id entry st) =
     (load st)(user_id \<mapsto> (case load st user_id of None \<Rightarrow> [] | Some l \<Rightarrow> l) @ [entry])"
  by (simp add: save_history_def save_def setdefault_def Let_def split: option.split)



text \<open>
  Claim C9. The two textual definitions of \<^verbatim>\<open>save_history\<close> and the two of
  \<^verbatim>\<open>get_history\<close> are extensionally equal: on every input the first computes the same
  result and the same change of the file as the second, which shadows it.
\<close>

theorem duplicate_definitions_equal:
  "save_history_first = (save_history :: pystr \<Rightarrow> 'e \<Rightarrow> 'e history_data storage \<Rightarrow> _)
   \<and> get_history_first = (get_history :: pystr \<Rightarrow> 'e history_data storage \<Rightarrow> _)"
  by (intro conjI ext) (simp_all add: save_history_first_def save_history_def
      get_history_first_def get_history_def)

section \<open>User store: unique usernames\<close>

lemma username_taken_iff:
  "username_taken username users \<longleftrightarrow> Some username \<in> set (usernames users)"
  by (force simp: username_taken_def usernames_def list_ex_iff)

lemma usernames_new_user:
  "usernames (users @ [new_user username password full_name]) = usernames users @ [Some username]"
  by (simp add: usernames_def new_user_def get_def lit_def)

text \<open>
  What \<^verbatim>\<open>create_user\<close> does on a storage whose directory exists: it returns False and
  leaves the stored list unchanged when a stored user already has the username; otherwise it
  appends exactly one new record and returns True. So usernames that are unique in the store
  stay unique there.
\<close>

theorem create_user_unique:
  assumes "st \<noteq> NoDir"
  shows "(username_taken username (load_users st) \<longrightarrow>
            create_user username password full_name st = (Inr False, st))
       \<and> (\<not> username_taken username (load_users st) \<longrightarrow>
            create_user username password full_name st =
              (Inr True, File (load_users st @ [new_user username password full_name])))
       \<and> (distinct (usernames (load_users st)) \<longrightarrow>
            distinct (usernames (load_users (snd (create_user username password full_name st)))))"
proof (intro conjI impI)
  assume "username_taken username (load_users st)"
  then show "create_user username password full_name st = (Inr False, st)"
    by (simp add: create_user_def)
next
  assume free: "\<not> username_taken username (load_users st)"
  with assms show created: "create_user username password full_name st =
      (Inr True, File (load_users st @ [new_user username password full_name]))"
    by (cases st) (simp_all add: create_user_def)
next
  assume d: "distinct (usernames (load_users st))"
  show "distinct (usernames (load_users (snd (create_user username password full_name st))))"
  proof (cases "username_taken username (load_users st)")
    case True
    with d show ?thesis by (simp add: create_user_def)
  next
    case False
    with assms have "create_user username password full_name st =
        (Inr True, File (load_users st @ [new_user username password full_name]))"
      by (cases st) (simp_all add: create_user_def)
    with d False show ?thesis
      by (simp add: usernames_new_user username_taken_iff)
  qed
qed

theorem create_user_unique_witness:
  "create_user (lit ''bob'') (lit ''pw'') (lit ''Bob'') (File [new_user (lit ''bob'') [] []])
     = (Inr False, File [new_user (lit ''bob'') [] []])
   \<and> create_user (lit ''amy'') (lit ''pw'') (lit ''Amy'') (File [new_user (lit ''bob'') [] []])
     = (Inr True, File [new_user (lit ''bob'') [] [], new_user (lit ''amy'') (lit ''pw'') (lit ''Amy'')])
   \<and> create_user (lit ''amy'') (lit ''pw'') (lit ''Amy'') NoFile
     = (Inr True, File [new_user (lit ''amy'') (lit ''pw'') (lit ''Amy'')])"
  using create_user_unique [of "File [new_user (lit ''bob'') [] []]" "lit ''bob''" "lit ''pw''" "lit ''Bob''"]
    create_user_unique [of "File [new_user (lit ''bob'') [] []]" "lit ''amy''" "lit ''pw''" "lit ''Amy''"]
    create_user_unique [of "NoFile :: user list storage" "lit ''amy''" "lit ''pw''" "lit ''Amy''"]
  by (simp add: username_taken_def get_def new_user_def lit_def)

text \<open>
  Claim C10. For every stored user list and every username, \<^verbatim>\<open>create_user\<close> returns False
  and leaves the stored list unchanged when a stored user already has the username; otherwise
  it appends exactly one new user record and returns True. The code does not do the second
  half when the storage directory is missing: \<^verbatim>\<open>_load_users\<close> reads the empty list, no
  username is taken, and \<^verbatim>\<open>_save_users\<close> opens the file without creating the directory,
  so \<^verbatim>\<open>create_user\<close> raises \<^verbatim>\<open>FileNotFoundError\<close> and nothing is stored. The history
  store, on the same missing directory, creates it and stores the entry.
\<close>

theorem create_user_missing_directory:
  "load_users NoDir = []
   \<and> \<not> username_taken (lit ''amy'') (load_users NoDir)
   \<and> create_user (lit ''amy'') (lit ''pw'') (lit ''Amy'') NoDir = (Inl FileNotFoundError, NoDir)
   \<and> fst (create_user (lit ''amy'') (lit ''pw'') (lit ''Amy'') NoDir) \<noteq> Inr True
   \<and> load_users (snd (create_user (lit ''amy'') (lit ''pw'') (lit ''Amy'') NoDir)) = []
   \<and> get_history (lit ''amy'') (save_history (lit ''amy'') (1::nat) NoDir) = [1]"
  by (simp add: create_user_def username_taken_def get_history_def load_save_history)

section \<open>Key pool: rotation and exhaustion\<close>

lemma rotation_index:
  assumes "i \<in> set (rotation p)"
  shows "i < length (keys p)"
proof -
  from assms obtain x where x: "x < length (keys p)" "i = (cursor p + x) mod length (keys p)"
    by (auto simp: rotation_def)
  from x(1) have "0 < length (keys p)" by arith
  with x(2) show ?thesis by simp
qed

lemma rotation_covers:
  assumes "j < length (keys p)"
  shows "j \<in> set (rotation p)"
proof -
  let ?n = "length (keys p)"
  let ?i = "(j + (?n - cursor p mod ?n)) mod ?n"
  have n: "0 < ?n" using assms by arith
  have "(cursor p + ?i) mod ?n = (cursor p mod ?n + (j + (?n - cursor p mod ?n))) mod ?n"
    by (simp add: mod_simps)
  also have "cursor p mod ?n + (j + (?n - cursor p mod ?n)) = j + ?n"
  proof -
    have "cursor p mod ?n < ?n" using n by simp
    then show ?thesis by arith
  qed
  also have "(j + ?n) mod ?n = j" using assms by simp
  finally have "(cursor p + ?i) mod ?n = j" .
  moreover have "?i < ?n" using n by simp
  ultimately show ?thesis by (force simp: rotation_def)
qed

lemma get_next_key_Inr:
  "keys p \<noteq> [] \<Longrightarrow> \<exists>k p'. get_next_key p = Inr (k, p')"
  by (simp add: get_next_key_def split: option.split)

lemma get_next_key_fields:
  assumes "get_next_key p = Inr (k, p')"
  shows "keys p' = keys p" "exhausted p' = exhausted p" "k \<in> set (keys p)"
  using assms
  by (auto simp: get_next_key_def find_Some_iff split: if_splits option.splits
      dest!: nth_mem [THEN rotation_index])

lemma get_next_key_available:
  assumes "get_next_key p = Inr (k, p')" "available p \<noteq> {}"
  shows "k \<in> available p"
proof -
  from assms(2) obtain c where c: "c \<in> set (keys p)" "c \<notin> exhausted p"
    by (auto simp: available_def)
  then obtain j where j: "j < length (keys p)" "keys p ! j = c"
    by (auto simp: in_set_conv_nth)
  then have "j \<in> set (rotation p)" by (simp add: rotation_covers)
  with j c have "find (\<lambda>i. keys p ! i \<notin> exhausted p) (rotation p) \<noteq> None"
    by (auto simp: find_None_iff)
  then obtain i where f: "find (\<lambda>i. keys p ! i \<notin> exhausted p) (rotation p) = Some i"
    by auto
  then have "i \<in> set (rotation p)" "keys p ! i \<notin> exhausted p"
    by (auto simp: find_Some_iff)
  moreover from f assms(1) j have "k = keys p ! i"
    by (auto simp: get_next_key_def split: if_splits)
  ultimately show ?thesis
    by (auto simp: available_def dest: rotation_index)
qed

lemma run_pool_keys: "keys (run_pool ops p) = keys p"
proof (induction ops arbitrary: p)
  case Nil
  show ?case by simp
next
  case (Cons op ops)
  show ?case
  proof (cases op)
    case Next
    with Cons show ?thesis
      by (auto split: sum.splits dest: get_next_key_fields(1))
  next
    case (Mark c)
    with Cons show ?thesis by (simp add: mark_key_quota_exceeded_def)
  qed
qed

lemma run_pool_exhausted: "c \<in> exhausted p \<Longrightarrow> c \<in> exhausted (run_pool ops p)"
proof (induction ops arbitrary: p)
  case Nil
  then show ?case by simp
next
  case (Cons op ops)
  show ?case
  proof (cases op)
    case Next
    with Cons show ?thesis
      by (auto split: sum.splits dest: get_next_key_fields(2))
  next
    case (Mark d)
    with Cons show ?thesis by (simp add: mark_key_quota_exceeded_def)
  qed
qed

lemma next_pool_ab:
  "get_next_key pool_ab = Inr (lit ''key-A'', pool_ab\<lparr>cursor := 1\<rparr>)"
  by (simp add: get_next_key_def rotation_def pool_ab_def)

lemma next_pool_ab_marked:
  "get_next_key (mark_key_quota_exceeded (lit ''key-A'') (pool_ab\<lparr>cursor := 1\<rparr>)) =
     Inr (lit ''key-B'', pool_ab\<lparr>cursor := 0, exhausted := {lit ''key-A''}\<rparr>)"
  by (simp add: get_next_key_def rotation_def pool_ab_def mark_key_quota_exceeded_def)

lemma next_pool_spent:
  "get_next_key pool_spent = Inr (lit ''key-B'', pool_spent\<lparr>cursor := 0\<rparr>)"
  by (simp add: get_next_key_def rotation_def pool_spent_def)

text \<open>
  Claim C7. On a pool that holds at least one credential: \<^verbatim>\<open>next()\<close> returns a
  credential of the pool, and never one that is marked exhausted while an available one
  exists; after \<^verbatim>\<open>mark_exhausted(c)\<close>, whatever calls follow, \<open>c\<close> stays marked and
  \<^verbatim>\<open>next()\<close> does not return it as long as some credential is available; and when every
  credential is marked exhausted, \<^verbatim>\<open>next()\<close> still returns one of them instead of failing.
\<close>

theorem key_pool_skips_exhausted:
  assumes "keys p \<noteq> []"
  shows "(\<exists>k p'. get_next_key p = Inr (k, p') \<and> k \<in> set (keys p)
            \<and> (available p \<noteq> {} \<longrightarrow> k \<notin> exhausted p))
       \<and> (let q = run_pool ops (mark_key_quota_exceeded c p) in
            c \<in> exhausted q
            \<and> (\<exists>k q'. get_next_key q = Inr (k, q') \<and> (available q \<noteq> {} \<longrightarrow> k \<noteq> c)))
       \<and> (available p = {} \<longrightarrow> (\<exists>k p'. get_next_key p = Inr (k, p') \<and> k \<in> exhausted p))"
proof (intro conjI)
  from assms obtain k p' where g: "get_next_key p = Inr (k, p')"
    using get_next_key_Inr by blast
  then have k: "k \<in> set (keys p)" by (rule get_next_key_fields)
  with g show "\<exists>k p'. get_next_key p = Inr (k, p') \<and> k \<in> set (keys p)
      \<and> (available p \<noteq> {} \<longrightarrow> k \<notin> exhausted p)"
    using get_next_key_available [OF g] by (auto simp: available_def)
  from g k show "available p = {} \<longrightarrow> (\<exists>k p'. get_next_key p = Inr (k, p') \<and> k \<in> exhausted p)"
    by (auto simp: available_def)
next
  define q where "q = run_pool ops (mark_key_quota_exceeded c p)"
  have c: "c \<in> exhausted q"
    unfolding q_def by (rule run_pool_exhausted) (simp add: mark_key_quota_exceeded_def)
  have "keys q \<noteq> []"
    using assms by (simp add: q_def run_pool_keys mark_key_quota_exceeded_def)
  then obtain k q' where g: "get_next_key q = Inr (k, q')"
    using get_next_key_Inr by blast
  have "available q \<noteq> {} \<longrightarrow> k \<noteq> c"
    using get_next_key_available [OF g] c by (auto simp: available_def)
  with c g show "let q = run_pool ops (mark_key_quota_exceeded c p) in
      c \<in> exhausted q \<and> (\<exists>k q'. get_next_key q = Inr (k, q') \<and> (available q \<noteq> {} \<longrightarrow> k \<noteq> c))"
    by (auto simp: q_def Let_def)
qed

theorem key_pool_skips_exhausted_witness:
  "keys pool_ab \<noteq> [] \<and> keys pool_spent \<noteq> []
   \<and> get_next_key pool_ab = Inr (lit ''key-A'', pool_ab\<lparr>cursor := 1\<rparr>)
   \<and> lit ''key-A'' \<in> exhausted (run_pool [Next, Next] (mark_key_quota_exceeded (lit ''key-A'') pool_ab))
   \<and> available (run_pool [Next, Next] (mark_key_quota_exceeded (lit ''key-A'') pool_ab)) \<noteq> {}
   \<and> (\<exists>k q'. get_next_key (run_pool [Next, Next] (mark_key_quota_exceeded (lit ''key-A'') pool_ab))
          = Inr (k, q') \<and> k \<noteq> lit ''key-A'')
   \<and> available pool_spent = {}
   \<and> (\<exists>k p'. get_next_key pool_spent = Inr (k, p') \<and> k \<in> exhausted pool_spent)"
proof -
  have a: "available (run_pool [Next, Next] (mark_key_quota_exceeded (lit ''key-A'') pool_ab)) \<noteq> {}"
    by (simp add: get_next_key_def rotation_def pool_ab_def mark_key_quota_exceeded_def
        available_def)
  have s: "available pool_spent = {}"
    by (simp add: available_def pool_spent_def)
  have k: "keys pool_ab \<noteq> []" "keys pool_spent \<noteq> []"
    by (simp_all add: pool_ab_def pool_spent_def)
  show ?thesis
    using key_pool_skips_exhausted [OF k(1), of "[Next, Next]" "lit ''key-A''"]
      key_pool_skips_exhausted [OF k(2), of "[]" "lit ''key-A''"] a s k next_pool_ab
    by (simp add: Let_def)
qed

section \<open>Agent invocation\<close>

lemma invoke_unfold:
  "invoke complete rc call w =
     save_and_return (recorded_input rc call)
       (ainvoke_with_retry complete (composed rc call (load_memory_variables (memory w))) w)"
  by (cases call)
    (simp_all add: symptom_agent_def lifestyle_agent_def diet_agent_def fitness_agent_def)

lemma ainvoke_memory: "memory (snd (ainvoke_with_retry complete msgs w)) = memory w"
  by (simp add: ainvoke_with_retry_def Let_def split: sum.split prod.split)

lemma marked_then_next:
  "get_next_key (mark_key_quota_exceeded k1 p1) = Inr (k2, p2) \<Longrightarrow>
     exhausted p2 = insert k1 (exhausted p1)"
  by (drule get_next_key_fields(2)) (simp add: mark_key_quota_exceeded_def)

lemma retry_second_attempt:
  assumes "get_next_key (pool w) = Inr (k1, p1)"
    and "complete (remote w) k1 msgs = (Inl e1, r1)"
    and "get_next_key (mark_key_quota_exceeded k1 p1) = Inr (k2, p2)"
    and "complete r1 k2 msgs = (res, r2)"
  shows "ainvoke_with_retry complete msgs w = (res, w\<lparr>pool := p2, remote := r2\<rparr>)"
  using assms by (simp add: ainvoke_with_retry_def make_llm_with_key_def)

lemma first_attempt:
  assumes "get_next_key (pool w) = Inr (k1, p1)"
    and "complete (remote w) k1 msgs = (Inr content, r1)"
  shows "ainvoke_with_retry complete msgs w = (Inr content, w\<lparr>pool := p1, remote := r1\<rparr>)"
  using assms by (simp add: ainvoke_with_retry_def make_llm_with_key_def)

lemma scripted_step: "scripted (x # xs) k msgs = (x, xs)"
  by (simp add: scripted_def)

lemma pool_world_of: "pool (world_of script) = pool_ab" "remote (world_of script) = script"
  "memory (world_of script) = []"
  by (simp_all add: world_of_def)

lemma next_pool_ab_second:
  "get_next_key (pool_ab\<lparr>cursor := Suc 0\<rparr>) = Inr (lit ''key-B'', pool_ab)"
  by (simp add: get_next_key_def rotation_def pool_ab_def)

lemma first_attempt_scripted:
  assumes "get_next_key (pool w) = Inr (k1, p1)" and "remote w = Inr content # rest"
  shows "invoke scripted rc call w =
    (Inr content, w\<lparr>pool := p1, remote := rest, memory := memory w @ [(recorded_input rc call, content)]\<rparr>)"
proof -
  have "scripted (remote w) k1 (composed rc call (load_memory_variables (memory w))) = (Inr content, rest)"
    by (simp only: assms(2) scripted_step)
  with assms(1) have "ainvoke_with_retry scripted (composed rc call (load_memory_variables (memory w))) w
      = (Inr content, w\<lparr>pool := p1, remote := rest\<rparr>)"
    by (rule first_attempt)
  then show ?thesis
    by (simp add: invoke_unfold save_and_return_def save_context_def)
qed

lemma symptom_both_fail:
  "invoke scripted no_snippets (Symptom (lit ''dry cough'') []) (world_of [Inl quota, Inl quota])
     = (Inl quota, \<lparr>pool = pool_ab\<lparr>exhausted := {lit ''key-A''}\<rparr>, memory = [], remote = []\<rparr>)"
proof -
  let ?w = "world_of [Inl quota, Inl quota]"
  let ?msgs = "composed no_snippets (Symptom (lit ''dry cough'') []) (load_memory_variables (memory ?w))"
  have h1: "get_next_key (pool ?w) = Inr (lit ''key-A'', pool_ab\<lparr>cursor := 1\<rparr>)"
    by (simp add: pool_world_of next_pool_ab)
  have h2: "scripted (remote ?w) (lit ''key-A'') ?msgs = (Inl quota, [Inl quota])"
    by (simp only: pool_world_of scripted_step)
  have h4: "scripted [Inl quota] (lit ''key-B'') ?msgs = (Inl quota, [])"
    by (simp only: scripted_step)
  have "ainvoke_with_retry scripted ?msgs ?w =
      (Inl quota, ?w\<lparr>pool := pool_ab\<lparr>cursor := 0, exhausted := {lit ''key-A''}\<rparr>, remote := []\<rparr>)"
    using h1 h2 next_pool_ab_marked h4 by (rule retry_second_attempt)
  then show ?thesis
    by (simp add: invoke_unfold save_and_return_def world_of_def pool_ab_def)
qed

lemma invoke_memory:
  "memory (snd (invoke complete rc call w)) =
     (case fst (invoke complete rc call w) of
        Inr out \<Rightarrow> memory w @ [(recorded_input rc call, out)]
      | Inl e \<Rightarrow> memory w)"
proof -
  obtain res w' where a: "ainvoke_with_retry complete
      (composed rc call (load_memory_variables (memory w))) w = (res, w')"
    by (cases "ainvoke_with_retry complete (composed rc call (load_memory_variables (memory w))) w")
  then have "memory w' = memory w"
    using ainvoke_memory [of complete "composed rc call (load_memory_variables (memory w))" w]
    by simp
  with a show ?thesis
    by (cases res) (simp_all add: invoke_unfold save_and_return_def save_context_def)
qed

lemma invoke_result_memory:
  "invoke complete rc call w = (Inr out, w') \<Longrightarrow>
     memory w' = memory w @ [(recorded_input rc call, out)]"
  "invoke complete rc call w = (Inl e, w') \<Longrightarrow> memory w' = memory w"
  using invoke_memory [of complete rc call w] by simp_all

text \<open>
  Claim C1, as the code has it. For every agent variant, when the remote call fails on the
  first attempt and again on the single retry, the invocation fails with the second failure,
  the remote side has seen exactly those two calls, the credential of the first attempt is the
  only one newly marked exhausted (the credential of the failed retry is not marked), and no
  turn is appended to Shared Memory.
\<close>

theorem retry_exhaustion:
  assumes "get_next_key (pool w) = Inr (k1, p1)"
    and "complete (remote w) k1 (composed rc call (load_memory_variables (memory w))) = (Inl e1, r1)"
    and "get_next_key (mark_key_quota_exceeded k1 p1) = Inr (k2, p2)"
    and "complete r1 k2 (composed rc call (load_memory_variables (memory w))) = (Inl e2, r2)"
  shows "invoke complete rc call w = (Inl e2, w\<lparr>pool := p2, remote := r2\<rparr>)
       \<and> exhausted p2 = insert k1 (exhausted (pool w))
       \<and> memory (snd (invoke complete rc call w)) = memory w"
proof -
  have "ainvoke_with_retry complete (composed rc call (load_memory_variables (memory w))) w
      = (Inl e2, w\<lparr>pool := p2, remote := r2\<rparr>)"
    using assms by (rule retry_second_attempt)
  then have "invoke complete rc call w = (Inl e2, w\<lparr>pool := p2, remote := r2\<rparr>)"
    by (simp add: invoke_unfold save_and_return_def)
  moreover have "exhausted p2 = insert k1 (exhausted (pool w))"
    using marked_then_next [OF assms(3)] get_next_key_fields(2) [OF assms(1)] by simp
  ultimately show ?thesis by simp
qed

theorem retry_exhaustion_witness:
  "invoke scripted no_snippets (Fitness (lit ''dry cough'') (lit ''soup'')) (world_of [Inl quota, Inl quota])
     = (Inl quota, \<lparr>pool = pool_ab\<lparr>exhausted := {lit ''key-A''}\<rparr>, memory = [], remote = []\<rparr>)
   \<and> exhausted (pool_ab\<lparr>exhausted := {lit ''key-A''}\<rparr>) = insert (lit ''key-A'') (exhausted pool_ab)"
proof -
  let ?w = "world_of [Inl quota, Inl quota]"
  let ?msgs = "composed no_snippets (Fitness (lit ''dry cough'') (lit ''soup''))
      (load_memory_variables (memory ?w))"
  have h1: "get_next_key (pool ?w) = Inr (lit ''key-A'', pool_ab\<lparr>cursor := 1\<rparr>)"
    by (simp add: pool_world_of next_pool_ab)
  have h2: "scripted (remote ?w) (lit ''key-A'') ?msgs = (Inl quota, [Inl quota])"
    by (simp only: pool_world_of scripted_step)
  have h3: "get_next_key (mark_key_quota_exceeded (lit ''key-A'') (pool_ab\<lparr>cursor := 1\<rparr>)) =
     Inr (lit ''key-B'', pool_ab\<lparr>exhausted := {lit ''key-A''}\<rparr>)"
    using next_pool_ab_marked by (simp add: pool_ab_def)
  have h4: "scripted [Inl quota] (lit ''key-B'') ?msgs = (Inl quota, [])"
    by (simp only: scripted_step)
  show ?thesis
    using retry_exhaustion [where complete = scripted and rc = no_snippets
        and call = "Fitness (lit ''dry cough'') (lit ''soup'')", OF h1 h2 h3 h4] by (simp add: world_of_def pool_ab_def)
qed

theorem retry_exhaustion_counterexample:
  "fst (invoke scripted no_snippets (Symptom (lit ''dry cough'') []) (world_of [Inl quota, Inl quota]))
     = Inl quota
   \<and> exhausted (pool (snd (invoke scripted no_snippets (Symptom (lit ''dry cough'') [])
        (world_of [Inl quota, Inl quota])))) = {lit ''key-A''}
   \<and> lit ''key-B'' \<notin> exhausted (pool (snd (invoke scripted no_snippets (Symptom (lit ''dry cough'') [])
        (world_of [Inl quota, Inl quota]))))
   \<and> memory (snd (invoke scripted no_snippets (Symptom (lit ''dry cough'') [])
        (world_of [Inl quota, Inl quota]))) = []"
  using symptom_both_fail by (simp add: pool_ab_def)

text \<open>
  Claim C2. For every agent variant, when the remote call fails on the first attempt and
  succeeds on the second, the invocation returns the text of the second attempt, exactly one
  credential, the one of the first attempt, has been marked exhausted, and exactly one turn
  has been appended to Shared Memory.
\<close>

theorem retry_once_success:
  assumes "get_next_key (pool w) = Inr (k1, p1)"
    and "complete (remote w) k1 (composed rc call (load_memory_variables (memory w))) = (Inl e1, r1)"
    and "get_next_key (mark_key_quota_exceeded k1 p1) = Inr (k2, p2)"
    and "complete r1 k2 (composed rc call (load_memory_variables (memory w))) = (Inr text, r2)"
  shows "invoke complete rc call w =
           (Inr text, w\<lparr>pool := p2, remote := r2,
                        memory := memory w @ [(recorded_input rc call, text)]\<rparr>)
       \<and> exhausted p2 = insert k1 (exhausted (pool w))"
proof -
  have "ainvoke_with_retry complete (composed rc call (load_memory_variables (memory w))) w
      = (Inr text, w\<lparr>pool := p2, remote := r2\<rparr>)"
    using assms by (rule retry_second_attempt)
  then have "invoke complete rc call w =
      (Inr text, w\<lparr>pool := p2, remote := r2, memory := memory w @ [(recorded_input rc call, text)]\<rparr>)"
    by (simp add: invoke_unfold save_and_return_def save_context_def)
  moreover have "exhausted p2 = insert k1 (exhausted (pool w))"
    using marked_then_next [OF assms(3)] get_next_key_fields(2) [OF assms(1)] by simp
  ultimately show ?thesis by simp
qed

theorem retry_once_success_witness:
  "invoke scripted no_snippets (Lifestyle (lit ''dry cough'') []) (world_of [Inl quota, Inr (lit ''rest'')])
     = (Inr (lit ''rest''),
        \<lparr>pool = pool_ab\<lparr>exhausted := {lit ''key-A''}\<rparr>,
         memory = [(lifestyle_input (lit ''dry cough'') [], lit ''rest'')], remote = []\<rparr>)
   \<and> exhausted (pool_ab\<lparr>exhausted := {lit ''key-A''}\<rparr>) = insert (lit ''key-A'') (exhausted pool_ab)"
proof -
  let ?w = "world_of [Inl quota, Inr (lit ''rest'')]"
  let ?msgs = "composed no_snippets (Lifestyle (lit ''dry cough'') [])
      (load_memory_variables (memory ?w))"
  have h1: "get_next_key (pool ?w) = Inr (lit ''key-A'', pool_ab\<lparr>cursor := 1\<rparr>)"
    by (simp add: pool_world_of next_pool_ab)
  have h2: "scripted (remote ?w) (lit ''key-A'') ?msgs = (Inl quota, [Inr (lit ''rest'')])"
    by (simp only: pool_world_of scripted_step)
  have h3: "get_next_key (mark_key_quota_exceeded (lit ''key-A'') (pool_ab\<lparr>cursor := 1\<rparr>)) =
     Inr (lit ''key-B'', pool_ab\<lparr>exhausted := {lit ''key-A''}\<rparr>)"
    using next_pool_ab_marked by (simp add: pool_ab_def)
  have h4: "scripted [Inr (lit ''rest'')] (lit ''key-B'') ?msgs = (Inr (lit ''rest''), [])"
    by (simp only: scripted_step)
  show ?thesis
    using retry_once_success [where complete = scripted and rc = no_snippets
        and call = "Lifestyle (lit ''dry cough'') []", OF h1 h2 h3 h4] by (simp add: world_of_def pool_ab_def)
qed

text \<open>
  Claim C3. Whatever the remote client does, an invocation that succeeds appends exactly one
  turn at the end of Shared Memory and one that fails appends none, and the turns already
  there stay as they are; so after successful Symptom, Lifestyle and Diet invocations in
  sequence the memory holds the three new turns in that order (exactly three when it was empty
  before).
\<close>

theorem turns_append_only:
  "(case invoke complete rc call w of
      (Inr out, w') \<Rightarrow> memory w' = memory w @ [(recorded_input rc call, out)]
    | (Inl e, w') \<Rightarrow> memory w' = memory w)
   \<and> (symptom_agent complete s1 r1 w0 = (Inr a, w1) \<longrightarrow>
      lifestyle_agent complete s2 r2 w1 = (Inr b, w2) \<longrightarrow>
      diet_agent complete rc s3 r3 lnotes w2 = (Inr c, w3) \<longrightarrow>
        memory w3 = memory w0 @ [(symptom_input s1 r1, a), (lifestyle_input s2 r2, b),
                                 (diet_input rc s3 r3 lnotes, c)]
        \<and> (memory w0 = [] \<longrightarrow> length (memory w3) = 3))"
proof (intro conjI impI)
  show "case invoke complete rc call w of
      (Inr out, w') \<Rightarrow> memory w' = memory w @ [(recorded_input rc call, out)]
    | (Inl e, w') \<Rightarrow> memory w' = memory w"
    by (auto split: prod.split sum.split dest: invoke_result_memory)
next
  assume s: "symptom_agent complete s1 r1 w0 = (Inr a, w1)"
    and l: "lifestyle_agent complete s2 r2 w1 = (Inr b, w2)"
    and d: "diet_agent complete rc s3 r3 lnotes w2 = (Inr c, w3)"
  have "memory w1 = memory w0 @ [(symptom_input s1 r1, a)]"
    using invoke_result_memory(1) [of complete rc "Symptom s1 r1" w0 a w1] s by simp
  moreover have "memory w2 = memory w1 @ [(lifestyle_input s2 r2, b)]"
    using invoke_result_memory(1) [of complete rc "Lifestyle s2 r2" w1 b w2] l by simp
  moreover have "memory w3 = memory w2 @ [(diet_input rc s3 r3 lnotes, c)]"
    using invoke_result_memory(1) [of complete rc "Diet s3 r3 lnotes" w2 c w3] d by simp
  ultimately show m: "memory w3 = memory w0 @ [(symptom_input s1 r1, a),
      (lifestyle_input s2 r2, b), (diet_input rc s3 r3 lnotes, c)]"
    by simp
  assume "memory w0 = []"
  with m show "length (memory w3) = 3" by simp
qed

theorem turns_append_only_witness:
  "memory (snd (diet_agent scripted no_snippets (lit ''dry cough'') [] (lit ''rest'')
      (snd (lifestyle_agent scripted (lit ''dry cough'') []
        (snd (symptom_agent scripted (lit ''dry cough'') []
          (world_of [Inr (lit ''mild''), Inr (lit ''rest''), Inr (lit ''soup'')])))))))
   = [(symptom_input (lit ''dry cough'') [], lit ''mild''),
      (lifestyle_input (lit ''dry cough'') [], lit ''rest''),
      (diet_input no_snippets (lit ''dry cough'') [] (lit ''rest''), lit ''soup'')]
   \<and> memory (snd (invoke scripted no_snippets (Symptom (lit ''dry cough'') [])
        (world_of [Inl quota, Inl quota]))) = []"
proof -
  let ?s = "lit ''dry cough''"
  let ?w0 = "world_of [Inr (lit ''mild''), Inr (lit ''rest''), Inr (lit ''soup'')]"
  let ?w1 = "\<lparr>pool = pool_ab\<lparr>cursor := 1\<rparr>, memory = [(symptom_input ?s [], lit ''mild'')],
              remote = [Inr (lit ''rest''), Inr (lit ''soup'')]\<rparr>"
  let ?w2 = "\<lparr>pool = pool_ab, memory = [(symptom_input ?s [], lit ''mild''),
              (lifestyle_input ?s [], lit ''rest'')], remote = [Inr (lit ''soup'')]\<rparr>"
  let ?w3 = "\<lparr>pool = pool_ab\<lparr>cursor := 1\<rparr>, memory = [(symptom_input ?s [], lit ''mild''),
              (lifestyle_input ?s [], lit ''rest''),
              (diet_input no_snippets ?s [] (lit ''rest''), lit ''soup'')], remote = []\<rparr>"
  have e1: "symptom_agent scripted ?s [] ?w0 = (Inr (lit ''mild''), ?w1)"
    using first_attempt_scripted [of ?w0 "lit ''key-A''" "pool_ab\<lparr>cursor := 1\<rparr>" "lit ''mild''"
        "[Inr (lit ''rest''), Inr (lit ''soup'')]" no_snippets "Symptom ?s []"]
    by (simp add: pool_world_of next_pool_ab)
  have e2: "lifestyle_agent scripted ?s [] ?w1 = (Inr (lit ''rest''), ?w2)"
    using first_attempt_scripted [of ?w1 "lit ''key-B''" "pool_ab" "lit ''rest''"
        "[Inr (lit ''soup'')]" no_snippets "Lifestyle ?s []"]
    by (simp add: next_pool_ab_second)
  have e3: "diet_agent scripted no_snippets ?s [] (lit ''rest'') ?w2 = (Inr (lit ''soup''), ?w3)"
    using first_attempt_scripted [of ?w2 "lit ''key-A''" "pool_ab\<lparr>cursor := 1\<rparr>" "lit ''soup''"
        "[]" no_snippets "Diet ?s [] (lit ''rest'')"]
    by (simp add: next_pool_ab)
  note f = symptom_both_fail
  show ?thesis
    using turns_append_only [where complete = scripted and rc = no_snippets
        and call = "Symptom ?s []" and w = "world_of [Inl quota, Inl quota]"
        and ?s1.0 = ?s and ?r1.0 = "[]" and ?w0.0 = ?w0 and a = "lit ''mild''" and ?w1.0 = ?w1
        and ?s2.0 = ?s and ?r2.0 = "[]" and b = "lit ''rest''" and ?w2.0 = ?w2
        and ?s3.0 = ?s and ?r3.0 = "[]" and lnotes = "lit ''rest''" and c = "lit ''soup''"
        and ?w3.0 = ?w3] e1 e2 e3 f
    by (simp add: pool_world_of)
qed






text \<open>
  Claim C5. The task message that the Diet agent composes contains the \<^verbatim>\<open>lifestyle_notes\<close>
  it was given, and the task message that the Fitness agent composes contains the
  \<^verbatim>\<open>diet_notes\<close> it was given, each as one literal piece of the text.
\<close>

theorem chaining_contract:
  "(\<exists>pre suf. last (diet_messages rc history symptoms report lifestyle_notes)
       = HumanMessage (pre @ lifestyle_notes @ suf))
   \<and> (\<exists>pre suf. last (fitness_messages history symptoms diet_notes)
       = HumanMessage (pre @ diet_notes @ suf))"
proof
  have "diet_prompt symptoms report lifestyle_notes (rc symptoms) =
      (lit ''User symptoms:\<newline>'' @ symptoms @ lit ''\<newline>\<newline>'' @
       lit ''Relevant medical report text (may be empty):\<newline>'' @ report @ lit ''\<newline>\<newline>'' @
       lit ''Lifestyle information from lifestyle_agent:\<newline>'') @ lifestyle_notes @
      (lit ''\<newline>\<newline>'' @
       lit ''Evidence / knowledge base snippets:\<newline>'' @ rc symptoms @ lit ''\<newline>\<newline>'' @
       lit ''Suggest a safe, balanced diet plan. Mention foods to prefer and foods to avoid. '' @
       lit ''Highlight that this is not a replacement for a dietician or doctor.'')"
    by (simp add: diet_prompt_def)
  then show "\<exists>pre suf. last (diet_messages rc history symptoms report lifestyle_notes)
       = HumanMessage (pre @ lifestyle_notes @ suf)"
    unfolding diet_messages_def Let_def by (simp del: append_assoc) blast
  have "fitness_prompt symptoms diet_notes =
      (lit ''User symptoms:\<newline>'' @ symptoms @ lit ''\<newline>\<newline>'' @
       lit ''Diet constraints from diet_agent:\<newline>'') @ diet_notes @
      (lit ''\<newline>\<newline>'' @
       lit ''Recommend only low'' @ [8209] @ lit ''risk, gentle physical activities, and clearly tell the '' @
       lit ''user to stop if they feel pain or discomfort. Always remind them to talk '' @
       lit ''to their doctor before starting or intensifying exercise.'')"
    by (simp add: fitness_prompt_def)
  then show "\<exists>pre suf. last (fitness_messages history symptoms diet_notes)
       = HumanMessage (pre @ diet_notes @ suf)"
    unfolding fitness_messages_def by (simp del: append_assoc) blast
qed






end
